theory Spec2Isabelle
  imports Complex_Main
begin

section \<open>Time\<close>

text \<open>
  The storage reads three clocks: \<^verbatim>\<open>time.time()\<close> (a float, seconds since the epoch),
  \<^verbatim>\<open>datetime.datetime.utcnow()\<close> (a datetime, taken here as seconds since the epoch) and
  the server's \<^verbatim>\<open>$$NOW\<close> inside an update pipeline. One call of a storage method sees
  one reading of each. Timestamps are exact real numbers: neither the rounding of floats
  nor the millisecond resolution of a stored date is part of the model.
\<close>

record clock =
  time_time :: real
  utcnow :: real
  NOW :: real

text \<open>\<^verbatim>\<open>int(x)\<close> on a float truncates towards zero.\<close>

definition py_int :: "real \<Rightarrow> int" where
  "py_int x = (if 0 \<le> x then \<lfloor>x\<rfloor> else \<lceil>x\<rceil>)"

text \<open>
  \<^verbatim>\<open>calendar.timegm(d.timetuple())\<close>: the time tuple has no microseconds, so the result
  is the whole seconds of \<open>d\<close>.
\<close>

definition timegm :: "real \<Rightarrow> int" where
  "timegm d = \<lfloor>d\<rfloor>"

section \<open>The two collections\<close>

text \<open>
  A document of \<^verbatim>\<open>counters\<close> is \<^verbatim>\<open>{_id, count, expireAt}\<close>, one of \<^verbatim>\<open>windows\<close> is
  \<^verbatim>\<open>{_id, entries, expireAt}\<close>; each collection is a map from \<^verbatim>\<open>_id\<close> to the rest of
  the document. The server's TTL monitor, which deletes a document some time after its
  \<^verbatim>\<open>expireAt\<close>, is not a step of any method below: a state may hold expired documents.
\<close>

record counter_doc =
  count :: int
  expireAt :: real

record window_doc =
  entries :: "real list"
  expireAt_w :: real

record mongo =
  counters :: "string \<rightharpoonup> counter_doc"
  windows :: "string \<rightharpoonup> window_doc"

section \<open>MongoDBStorage\<close>

text \<open>
  Every method takes the state and the clock readings of the call and returns its value
  with the state after the call.
\<close>

definition MongoDBStorage_clear :: "mongo \<Rightarrow> string \<Rightarrow> mongo" where
  "MongoDBStorage_clear s key =
     s\<lparr>counters := (counters s)(key := None), windows := (windows s)(key := None)\<rparr>"

definition MongoDBStorage_get_expiry :: "mongo \<Rightarrow> clock \<Rightarrow> string \<Rightarrow> int \<times> mongo" where
  "MongoDBStorage_get_expiry s c key =
     (let counter = counters s key;
          expiry = (case counter of Some d \<Rightarrow> expireAt d | None \<Rightarrow> utcnow c)
      in (timegm expiry, s))"

text \<open>
  \<^verbatim>\<open>find_one\<close> with the filter \<^verbatim>\<open>expireAt >= utcnow()\<close>; then
  \<^verbatim>\<open>counter and counter["count"] or 0\<close>, where a count of zero is falsy.
\<close>

definition MongoDBStorage_get :: "mongo \<Rightarrow> clock \<Rightarrow> string \<Rightarrow> int \<times> mongo" where
  "MongoDBStorage_get s c key =
     (let counter = (case counters s key of
                       None \<Rightarrow> None
                     | Some d \<Rightarrow> if expireAt d \<ge> utcnow c then Some d else None)
      in ((case counter of
             None \<Rightarrow> 0
           | Some d \<Rightarrow> if count d \<noteq> 0 then count d else 0), s))"

text \<open>
  \<^verbatim>\<open>find_one_and_update\<close> with \<^verbatim>\<open>upsert=True\<close> and a one-stage pipeline. Without a
  document for the key the pipeline runs on the inserted \<^verbatim>\<open>{_id: key}\<close>, where the
  missing \<^verbatim>\<open>$expireAt\<close> compares below every date, so \<^verbatim>\<open>$lt\<close> holds. The document
  after the update is returned, projected to its count.
\<close>

definition MongoDBStorage_incr ::
  "mongo \<Rightarrow> clock \<Rightarrow> string \<Rightarrow> int \<Rightarrow> bool \<Rightarrow> int \<times> mongo" where
  "MongoDBStorage_incr s c key expiry elastic_expiry =
     (let expiration = utcnow c + real_of_int expiry;
          after =
            (case counters s key of
               None \<Rightarrow> \<lparr>count = 1, expireAt = expiration\<rparr>
             | Some d \<Rightarrow>
                 \<lparr>count = (if expireAt d < NOW c then 1 else count d + 1),
                  expireAt = (if expireAt d < NOW c then expiration
                              else (if elastic_expiry then expiration else expireAt d))\<rparr>)
      in (count after, s\<lparr>counters := (counters s)(key \<mapsto> after)\<rparr>))"

text \<open>The \<^verbatim>\<open>$max\<close> accumulator of a group over a non-empty list of numbers.\<close>

fun group_max :: "real list \<Rightarrow> real" where
  "group_max [] = 0"
| "group_max (e # es) = fold max es e"

text \<open>
  The aggregation: match the key, keep the entries at or after \<^verbatim>\<open>timestamp - expiry\<close>,
  unwind them (no entry left, no row), group them to their maximum and their number.
\<close>

definition MongoDBStorage_get_moving_window ::
  "mongo \<Rightarrow> clock \<Rightarrow> string \<Rightarrow> int \<Rightarrow> int \<Rightarrow> (int \<times> int) \<times> mongo" where
  "MongoDBStorage_get_moving_window s c key limit expiry =
     (let timestamp = time_time c;
          result =
            (case windows s key of
               None \<Rightarrow> []
             | Some d \<Rightarrow>
                 (let es = filter (\<lambda>entry. entry \<ge> timestamp - real_of_int expiry) (entries d)
                  in if es = [] then [] else [(group_max es, int (length es))]))
      in (case result of
            r # _ \<Rightarrow> ((py_int (fst r), snd r), s)
          | [] \<Rightarrow> ((py_int timestamp, 0), s)))"

text \<open>
  \<^verbatim>\<open>$slice\<close> of a \<^verbatim>\<open>$push\<close>: zero empties the array, a positive number keeps that many
  elements from the front, a negative one that many from the back.
\<close>

definition slice :: "int \<Rightarrow> 'a list \<Rightarrow> 'a list" where
  "slice n xs =
     (if n = 0 then []
      else if 0 < n then take (nat n) xs
      else drop (length xs - nat (- n)) xs)"

text \<open>
  The query path \<^verbatim>\<open>entries.<i>\<close>: the element at index \<open>i\<close> when the array has one; a
  negative \<open>i\<close> names no element.
\<close>

definition entry_at :: "real list \<Rightarrow> int \<Rightarrow> real option" where
  "entry_at es i = (if 0 \<le> i \<and> nat i < length es then Some (es ! nat i) else None)"

text \<open>\<^verbatim>\<open>{"$not": {"$gte": v}}\<close> also matches where the path names nothing.\<close>

definition not_gte :: "real option \<Rightarrow> real \<Rightarrow> bool" where
  "not_gte e v = (case e of None \<Rightarrow> True | Some x \<Rightarrow> \<not> x \<ge> v)"

text \<open>
  \<^verbatim>\<open>update_one\<close> with \<^verbatim>\<open>upsert=True\<close>. A document of the key that fails the filter makes
  the upsert insert a second document with the same \<^verbatim>\<open>_id\<close>: the server refuses with
  \<^verbatim>\<open>DuplicateKeyError\<close>, nothing is written and the method returns \<^verbatim>\<open>False\<close>.
\<close>

definition MongoDBStorage_acquire_entry ::
  "mongo \<Rightarrow> clock \<Rightarrow> string \<Rightarrow> int \<Rightarrow> int \<Rightarrow> bool \<times> mongo" where
  "MongoDBStorage_acquire_entry s c key limit expiry =
     (let timestamp = time_time c;
          expiration = utcnow c + real_of_int expiry
      in (case windows s key of
            None \<Rightarrow>
              (True, s\<lparr>windows := (windows s)(key \<mapsto>
                 \<lparr>entries = slice limit [timestamp], expireAt_w = expiration\<rparr>)\<rparr>)
          | Some d \<Rightarrow>
              if not_gte (entry_at (entries d) (limit - 1)) (timestamp - real_of_int expiry)
              then (True, s\<lparr>windows := (windows s)(key \<mapsto>
                 \<lparr>entries = slice limit (timestamp # entries d), expireAt_w = expiration\<rparr>)\<rparr>)
              else (False, s)))"

section \<open>Rate limit items\<close>

text \<open>
  The strategies read three things of a \<^verbatim>\<open>RateLimitItem\<close>, whose class is outside the
  verified sources: \<^verbatim>\<open>item.amount\<close>, \<^verbatim>\<open>item.get_expiry()\<close> (the window in seconds) and
  \<^verbatim>\<open>item.key_for(*identifiers)\<close>. An item is taken as these three, the key derivation
  being any function of the identifiers.
\<close>

record RateLimitItem =
  amount :: int
  get_expiry :: int
  key_for :: "string list \<Rightarrow> string"

section \<open>Strategies\<close>

definition RateLimiter_clear :: "mongo \<Rightarrow> RateLimitItem \<Rightarrow> string list \<Rightarrow> mongo" where
  "RateLimiter_clear s item identifiers = MongoDBStorage_clear s (key_for item identifiers)"

subsection \<open>MovingWindowRateLimiter\<close>

text \<open>
  The constructor looks at the storage object only through \<^verbatim>\<open>hasattr\<close>; the object is
  taken as its class name and the names of its attributes.
\<close>

record storage_object =
  class_name :: string
  attributes :: "string list"

definition hasattr :: "storage_object \<Rightarrow> string \<Rightarrow> bool" where
  "hasattr obj name = (name \<in> set (attributes obj))"

datatype error = NotImplementedError string

definition MovingWindowRateLimiter_init :: "storage_object \<Rightarrow> error + storage_object" where
  "MovingWindowRateLimiter_init storage =
     (if \<not> (hasattr storage ''acquire_entry'' \<or> hasattr storage ''get_moving_window'')
      then Inl (NotImplementedError
             (''MovingWindowRateLimiting is not implemented for storage of type ''
              @ class_name storage))
      else Inr storage)"

definition MovingWindowRateLimiter_hit ::
  "mongo \<Rightarrow> clock \<Rightarrow> RateLimitItem \<Rightarrow> string list \<Rightarrow> bool \<times> mongo" where
  "MovingWindowRateLimiter_hit s c item identifiers =
     MongoDBStorage_acquire_entry s c (key_for item identifiers) (amount item) (get_expiry item)"

definition MovingWindowRateLimiter_test ::
  "mongo \<Rightarrow> clock \<Rightarrow> RateLimitItem \<Rightarrow> string list \<Rightarrow> bool \<times> mongo" where
  "MovingWindowRateLimiter_test s c item identifiers =
     (let (res, s') = MongoDBStorage_get_moving_window s c
                        (key_for item identifiers) (amount item) (get_expiry item);
          amount' = snd res
      in (amount' < amount item, s'))"

definition MovingWindowRateLimiter_get_window_stats ::
  "mongo \<Rightarrow> clock \<Rightarrow> RateLimitItem \<Rightarrow> string list \<Rightarrow> (int \<times> int) \<times> mongo" where
  "MovingWindowRateLimiter_get_window_stats s c item identifiers =
     (let ((window_start, window_items), s') = MongoDBStorage_get_moving_window s c
                        (key_for item identifiers) (amount item) (get_expiry item);
          reset = window_start + get_expiry item
      in ((reset, amount item - window_items), s'))"

subsection \<open>FixedWindowRateLimiter\<close>

definition FixedWindowRateLimiter_hit ::
  "mongo \<Rightarrow> clock \<Rightarrow> RateLimitItem \<Rightarrow> string list \<Rightarrow> bool \<times> mongo" where
  "FixedWindowRateLimiter_hit s c item identifiers =
     (let (n, s') = MongoDBStorage_incr s c (key_for item identifiers) (get_expiry item) False
      in (n \<le> amount item, s'))"

definition FixedWindowRateLimiter_test ::
  "mongo \<Rightarrow> clock \<Rightarrow> RateLimitItem \<Rightarrow> string list \<Rightarrow> bool \<times> mongo" where
  "FixedWindowRateLimiter_test s c item identifiers =
     (let (n, s') = MongoDBStorage_get s c (key_for item identifiers)
      in (n < amount item, s'))"

definition FixedWindowRateLimiter_get_window_stats ::
  "mongo \<Rightarrow> clock \<Rightarrow> RateLimitItem \<Rightarrow> string list \<Rightarrow> (int \<times> int) \<times> mongo" where
  "FixedWindowRateLimiter_get_window_stats s c item identifiers =
     (let (n, s1) = MongoDBStorage_get s c (key_for item identifiers);
          remaining = max 0 (amount item - n);
          (reset, s2) = MongoDBStorage_get_expiry s1 c (key_for item identifiers)
      in ((reset, remaining), s2))"

subsection \<open>FixedWindowElasticExpiryRateLimiter\<close>

definition FixedWindowElasticExpiryRateLimiter_hit ::
  "mongo \<Rightarrow> clock \<Rightarrow> RateLimitItem \<Rightarrow> string list \<Rightarrow> bool \<times> mongo" where
  "FixedWindowElasticExpiryRateLimiter_hit s c item identifiers =
     (let (amount', s') = MongoDBStorage_incr s c (key_for item identifiers) (get_expiry item) True
      in (amount' \<le> amount item, s'))"

section \<open>Notions the properties are stated with\<close>

text \<open>The stored entries of a key; none when the key has no window document.\<close>

definition window_entries :: "mongo \<Rightarrow> string \<Rightarrow> real list" where
  "window_entries s key = (case windows s key of None \<Rightarrow> [] | Some d \<Rightarrow> entries d)"

text \<open>The entries inside the trailing window: those at or after \<^verbatim>\<open>now - expiry\<close>.\<close>

definition trailing :: "clock \<Rightarrow> int \<Rightarrow> real list \<Rightarrow> real list" where
  "trailing c expiry es = filter (\<lambda>entry. entry \<ge> time_time c - real_of_int expiry) es"

text \<open>Newest first: no entry is followed by a later one.\<close>

definition newest_first :: "real list \<Rightarrow> bool" where
  "newest_first es = sorted_wrt (\<lambda>a b. a \<ge> b) es"

text \<open>
  The moving window as the specification words it: the number of entries inside the
  trailing window and the timestamp of the oldest of them, or \<^verbatim>\<open>(now, 0)\<close>.
\<close>

definition get_moving_window_spec ::
  "mongo \<Rightarrow> clock \<Rightarrow> string \<Rightarrow> int \<Rightarrow> int \<Rightarrow> (real \<times> int) \<times> mongo" where
  "get_moving_window_spec s c key limit expiry =
     (let es = trailing c expiry (window_entries s key)
      in if es = [] then ((time_time c, 0), s)
         else ((Min (set es), int (length es)), s))"

text \<open>Calls in a row: \<open>n\<close> hits at one reading of the clocks.\<close>

fun FixedWindowRateLimiter_hits ::
  "nat \<Rightarrow> mongo \<Rightarrow> clock \<Rightarrow> RateLimitItem \<Rightarrow> string list \<Rightarrow> bool list \<times> mongo" where
  "FixedWindowRateLimiter_hits 0 s c item identifiers = ([], s)"
| "FixedWindowRateLimiter_hits (Suc n) s c item identifiers =
     (let (b, s') = FixedWindowRateLimiter_hit s c item identifiers;
          (bs, s'') = FixedWindowRateLimiter_hits n s' c item identifiers
      in (b # bs, s''))"

text \<open>Calls in a row: one \<^verbatim>\<open>acquire_entry\<close> at each of the given clock readings.\<close>

fun acquire_entries ::
  "mongo \<Rightarrow> clock list \<Rightarrow> string \<Rightarrow> int \<Rightarrow> int \<Rightarrow> bool list \<times> mongo" where
  "acquire_entries s [] key limit expiry = ([], s)"
| "acquire_entries s (c # cs) key limit expiry =
     (let (b, s') = MongoDBStorage_acquire_entry s c key limit expiry;
          (bs, s'') = acquire_entries s' cs key limit expiry
      in (b # bs, s''))"

section \<open>Concrete inputs\<close>

definition empty_mongo :: mongo where
  "empty_mongo = \<lparr>counters = Map.empty, windows = Map.empty\<rparr>"

text \<open>The three clocks reading the same instant.\<close>

definition clock_at :: "real \<Rightarrow> clock" where
  "clock_at t = \<lparr>time_time = t, utcnow = t, NOW = t\<rparr>"

text \<open>A server whose clock is a hundred seconds ahead of the client's.\<close>

definition server_ahead :: clock where
  "server_ahead = \<lparr>time_time = 0, utcnow = 0, NOW = 100\<rparr>"

text \<open>Two hits per two seconds, keyed by the identifiers and the parameters.\<close>

definition two_per_two_seconds :: RateLimitItem where
  "two_per_two_seconds =
     \<lparr>amount = 2, get_expiry = 2,
      key_for = (\<lambda>identifiers. ''LIMITER/'' @ concat (map (\<lambda>i. i @ ''/'') identifiers)
                                @ ''2/2/second'')\<rparr>"


text \<open>The counter of \<open>two_per_two_seconds\<close> for no identifiers, used up and expiring at second 9.\<close>

definition exhausted_counter :: mongo where
  "exhausted_counter =
     \<lparr>counters = [key_for two_per_two_seconds [] \<mapsto> \<lparr>count = 2, expireAt = 9\<rparr>],
      windows = Map.empty\<rparr>"

text \<open>A window of two entries, the newer one half a second past second twenty.\<close>

definition one_window :: mongo where
  "one_window =
     \<lparr>counters = Map.empty,
      windows = [''k'' \<mapsto> \<lparr>entries = [41 / 2, 10], expireAt_w = 161 / 2\<rparr>]\<rparr>"

text \<open>A window of two entries, at seconds two and one.\<close>

definition full_window :: mongo where
  "full_window =
     \<lparr>counters = Map.empty, windows = [''k'' \<mapsto> \<lparr>entries = [2, 1], expireAt_w = 12\<rparr>]\<rparr>"

text \<open>
  Two admitted entries, the second from a clock fifty seconds behind the first: the
  state after \<^verbatim>\<open>acquire_entry\<close> at second 100 and then at second 50.
\<close>

definition skewed_window :: mongo where
  "skewed_window =
     snd (acquire_entries empty_mongo [clock_at 100, clock_at 50] ''k'' 2 10)"

text \<open>A storage class that defines \<^verbatim>\<open>acquire_entry\<close> and not \<^verbatim>\<open>get_moving_window\<close>.\<close>

definition half_storage :: storage_object where
  "half_storage =
     \<lparr>class_name = ''HalfStorage'',
      attributes = [''incr'', ''get'', ''get_expiry'', ''check'', ''reset'', ''clear'',
                    ''acquire_entry'']\<rparr>"

section \<open>Auxiliary facts\<close>

lemma group_max_Max: "es \<noteq> [] \<Longrightarrow> group_max es = Max (set es)"
proof (cases es)
  case Nil
  assume "es \<noteq> []"
  with Nil show ?thesis by simp
next
  case (Cons e rest)
  then show ?thesis using Max.set_eq_fold [of e rest] by simp
qed

lemma newest_first_Cons:
  "newest_first (x # xs) = ((\<forall>y \<in> set xs. y \<le> x) \<and> newest_first xs)"
  by (simp add: newest_first_def)

lemma filter_below_empty:
  "newest_first (x # xs) \<Longrightarrow> \<not> b \<le> x \<Longrightarrow> filter (\<lambda>e. b \<le> e) xs = []"
  by (auto simp: newest_first_Cons filter_empty_conv)

text \<open>In a list kept newest first, the entries inside a trailing window are a prefix.\<close>

lemma nth_in_window_iff:
  "newest_first es \<Longrightarrow> i < length es \<Longrightarrow>
     (b \<le> es ! i) = (i < length (filter (\<lambda>e. b \<le> e) es))"
proof (induction es arbitrary: i)
  case Nil
  then show ?case by simp
next
  case (Cons x xs)
  show ?case
  proof (cases "b \<le> x")
    case True
    with Cons show ?thesis
      by (cases i) (simp_all add: newest_first_Cons)
  next
    case False
    have "es_i \<le> x" if "es_i \<in> set (x # xs)" for es_i
      using that Cons.prems(1) by (auto simp: newest_first_Cons)
    then have "(x # xs) ! i \<le> x"
      using Cons.prems(2) nth_mem by blast
    with False have "\<not> b \<le> (x # xs) ! i" by linarith
    moreover have "filter (\<lambda>e. b \<le> e) (x # xs) = []"
      using False filter_below_empty [OF Cons.prems(1) False] by simp
    ultimately show ?thesis by simp
  qed
qed

text \<open>Hence reading the one element at index \<open>limit - 1\<close> decides whether the window is full.\<close>

lemma check_iff_count:
  assumes "newest_first es" and "0 < limit"
  shows "not_gte (entry_at es (limit - 1)) b = (int (length (filter (\<lambda>e. b \<le> e) es)) < limit)"
proof (cases "nat (limit - 1) < length es")
  case True
  with assms have "entry_at es (limit - 1) = Some (es ! nat (limit - 1))"
    by (simp add: entry_at_def)
  moreover have "(b \<le> es ! nat (limit - 1)) = (nat (limit - 1) < length (filter (\<lambda>e. b \<le> e) es))"
    using nth_in_window_iff [OF assms(1) True] .
  ultimately show ?thesis using assms(2) by (auto simp: not_gte_def)
next
  case False
  then have "entry_at es (limit - 1) = None" by (simp add: entry_at_def)
  moreover have "int (length es) < limit" using False assms(2) by linarith
  moreover have "int (length (filter (\<lambda>e. b \<le> e) es)) < limit"
    using length_filter_le [of "\<lambda>e. b \<le> e" es] \<open>int (length es) < limit\<close> by linarith
  ultimately show ?thesis by (simp add: not_gte_def)
qed

lemma slice_pos: "0 < n \<Longrightarrow> slice n xs = take (nat n) xs"
  by (simp add: slice_def)

lemma slice_nonneg: "0 \<le> n \<Longrightarrow> slice n xs = take (nat n) xs"
  by (simp add: slice_def)

text \<open>\<^verbatim>\<open>acquire_entry\<close> in terms of the stored entries, a missing document having none.\<close>

lemma acquire_entry_eq:
  "MongoDBStorage_acquire_entry s c key limit expiry =
     (if not_gte (entry_at (window_entries s key) (limit - 1)) (time_time c - real_of_int expiry)
      then (True, s\<lparr>windows := (windows s)(key \<mapsto>
              \<lparr>entries = slice limit (time_time c # window_entries s key),
               expireAt_w = utcnow c + real_of_int expiry\<rparr>)\<rparr>)
      else (False, s))"
  by (simp add: MongoDBStorage_acquire_entry_def window_entries_def Let_def not_gte_def
      entry_at_def split: option.split)

section \<open>MongoDBStorage.get_moving_window\<close>

text \<open>
  C1, as the code has it. \<^verbatim>\<open>get_moving_window\<close> leaves the state as it was and returns
  the number of stored entries at or after \<^verbatim>\<open>now - expiry\<close> together with the timestamp
  of the \<^emph>\<open>newest\<close> of them (the group's \<^verbatim>\<open>$max\<close>), cut to whole seconds by \<^verbatim>\<open>int\<close>;
  with no entry inside the window it returns \<^verbatim>\<open>(int(now), 0)\<close>.
\<close>

theorem get_moving_window_newest:
  "MongoDBStorage_get_moving_window s c key limit expiry =
     (let es = trailing c expiry (window_entries s key)
      in if es = [] then ((py_int (time_time c), 0), s)
         else ((py_int (Max (set es)), int (length es)), s))"
  by (simp add: MongoDBStorage_get_moving_window_def trailing_def window_entries_def Let_def
      group_max_Max split: option.split)

text \<open>
  At second 30 with a window of 60 seconds both stored entries, 20.5 and 10, are inside
  the window: the code answers 20, the oldest entry is 10.
\<close>

theorem get_moving_window_not_oldest:
  "fst (MongoDBStorage_get_moving_window one_window (clock_at 30) ''k'' 2 60) = (20, 2) \<and>
   fst (get_moving_window_spec one_window (clock_at 30) ''k'' 2 60) = (10, 2)"
  by (simp add: MongoDBStorage_get_moving_window_def get_moving_window_spec_def one_window_def
      clock_at_def trailing_def window_entries_def py_int_def Let_def)

theorem get_moving_window_newest_witness:
  "MongoDBStorage_get_moving_window one_window (clock_at 30) ''k'' 2 60 = ((20, 2), one_window) \<and>
   MongoDBStorage_get_moving_window one_window (clock_at 90) ''k'' 2 60 = ((90, 0), one_window)"
  using get_moving_window_newest [of one_window "clock_at 30" "''k''" 2 60]
    get_moving_window_newest [of one_window "clock_at 90" "''k''" 2 60]
  by (simp add: one_window_def clock_at_def trailing_def window_entries_def py_int_def)

section \<open>MovingWindowRateLimiter.__init__\<close>

text \<open>The constructor raises exactly when the storage has neither of the two methods.\<close>

lemma MovingWindowRateLimiter_init_raises_iff:
  "(\<exists>e. MovingWindowRateLimiter_init storage = Inl e) =
     (\<not> hasattr storage ''acquire_entry'' \<and> \<not> hasattr storage ''get_moving_window'')"
  by (simp add: MovingWindowRateLimiter_init_def)

text \<open>
  C2. A storage must be refused unless it has both \<^verbatim>\<open>acquire_entry\<close> and
  \<^verbatim>\<open>get_moving_window\<close>. The constructor does not do so: a storage with
  \<^verbatim>\<open>acquire_entry\<close> and without \<^verbatim>\<open>get_moving_window\<close> is accepted.
\<close>

theorem MovingWindowRateLimiter_init_accepts_half_storage:
  "MovingWindowRateLimiter_init half_storage = Inr half_storage \<and>
   hasattr half_storage ''acquire_entry'' \<and>
   \<not> hasattr half_storage ''get_moving_window''"
  by (simp add: MovingWindowRateLimiter_init_def hasattr_def half_storage_def)

section \<open>MongoDBStorage.incr\<close>



section \<open>MongoDBStorage.acquire_entry\<close>

lemma newest_first_take: "newest_first es \<Longrightarrow> newest_first (take n es)"
  by (simp add: newest_first_def sorted_wrt_take)

lemma newest_first_split:
  "newest_first es \<Longrightarrow> kept \<in> set (take n es) \<Longrightarrow> dropped \<in> set (drop n es) \<Longrightarrow> dropped \<le> kept"
proof -
  assume nf: "newest_first es" and k: "kept \<in> set (take n es)" and d: "dropped \<in> set (drop n es)"
  from nf have "sorted_wrt (\<lambda>a b. a \<ge> b) (take n es @ drop n es)"
    by (simp add: newest_first_def)
  with k d show ?thesis
    unfolding sorted_wrt_append by blast
qed

lemma window_entries_upd:
  "window_entries (s\<lparr>windows := (windows s)(key \<mapsto> \<lparr>entries = es, expireAt_w = x\<rparr>)\<rparr>) key = es"
  by (simp add: window_entries_def)

text \<open>
  C4, with the order of the stored entries made explicit. For a limit above zero and a
  record whose entries are stored newest first, \<^verbatim>\<open>acquire_entry\<close> returns true exactly
  when fewer than \<open>limit\<close> stored entries lie inside the trailing window. On admission the
  record becomes the new timestamp in front of the old entries, cut to the first \<open>limit\<close>
  of them, with \<^verbatim>\<open>expireAt\<close> set to \<^verbatim>\<open>now + expiry\<close>; when the new timestamp is not
  before any stored one, every entry cut off is at most as recent as every entry kept.
  On rejection the state is the one before the call.
\<close>

theorem acquire_entry_admits:
  assumes "0 < limit" and "newest_first (window_entries s key)"
  shows "(fst (MongoDBStorage_acquire_entry s c key limit expiry) =
            (int (length (trailing c expiry (window_entries s key))) < limit)) \<and>
         (fst (MongoDBStorage_acquire_entry s c key limit expiry) \<longrightarrow>
            snd (MongoDBStorage_acquire_entry s c key limit expiry) =
              s\<lparr>windows := (windows s)(key \<mapsto>
                 \<lparr>entries = take (nat limit) (time_time c # window_entries s key),
                  expireAt_w = utcnow c + real_of_int expiry\<rparr>)\<rparr>) \<and>
         (\<not> fst (MongoDBStorage_acquire_entry s c key limit expiry) \<longrightarrow>
            snd (MongoDBStorage_acquire_entry s c key limit expiry) = s) \<and>
         ((\<forall>e \<in> set (window_entries s key). e \<le> time_time c) \<longrightarrow>
            (\<forall>kept \<in> set (take (nat limit) (time_time c # window_entries s key)).
             \<forall>dropped \<in> set (drop (nat limit) (time_time c # window_entries s key)).
               dropped \<le> kept))"
proof -
  have admit: "fst (MongoDBStorage_acquire_entry s c key limit expiry) =
      (int (length (trailing c expiry (window_entries s key))) < limit)"
    using check_iff_count [OF assms(2) assms(1), of "time_time c - real_of_int expiry"]
    by (simp add: acquire_entry_eq trailing_def)
  have written: "fst (MongoDBStorage_acquire_entry s c key limit expiry) \<longrightarrow>
      snd (MongoDBStorage_acquire_entry s c key limit expiry) =
        s\<lparr>windows := (windows s)(key \<mapsto>
           \<lparr>entries = take (nat limit) (time_time c # window_entries s key),
            expireAt_w = utcnow c + real_of_int expiry\<rparr>)\<rparr>"
    using assms(1) by (simp add: acquire_entry_eq slice_pos)
  have kept: "\<not> fst (MongoDBStorage_acquire_entry s c key limit expiry) \<longrightarrow>
      snd (MongoDBStorage_acquire_entry s c key limit expiry) = s"
    by (simp add: acquire_entry_eq)
  have oldest: "(\<forall>e \<in> set (window_entries s key). e \<le> time_time c) \<longrightarrow>
      (\<forall>kept \<in> set (take (nat limit) (time_time c # window_entries s key)).
       \<forall>dropped \<in> set (drop (nat limit) (time_time c # window_entries s key)).
         dropped \<le> kept)"
  proof (intro impI ballI)
    fix kept dropped
    assume "\<forall>e \<in> set (window_entries s key). e \<le> time_time c"
      and k: "kept \<in> set (take (nat limit) (time_time c # window_entries s key))"
      and d: "dropped \<in> set (drop (nat limit) (time_time c # window_entries s key))"
    with assms(2) have "newest_first (time_time c # window_entries s key)"
      by (simp add: newest_first_Cons)
    from newest_first_split [OF this k d] show "dropped \<le> kept" .
  qed
  from admit written kept oldest show ?thesis by blast
qed

lemma skewed_entries: "window_entries skewed_window ''k'' = [50, 100]"
  by (simp add: skewed_window_def MongoDBStorage_acquire_entry_def empty_mongo_def clock_at_def
      slice_def not_gte_def entry_at_def window_entries_def Let_def)

text \<open>
  Without that order the two differ. After an entry at second 100 and one at second 50
  the stored entries are 50, 100. At second 105 with a window of 10 seconds one entry is
  inside the window, one less than the limit of two, and the call is refused.
\<close>

theorem acquire_entry_rejects_below_limit:
  "\<not> fst (MongoDBStorage_acquire_entry skewed_window (clock_at 105) ''k'' 2 10) \<and>
   int (length (trailing (clock_at 105) 10 (window_entries skewed_window ''k''))) < 2"
  by (simp add: acquire_entry_eq skewed_entries trailing_def clock_at_def not_gte_def entry_at_def)


lemma full_window_entries: "window_entries full_window ''k'' = [2, 1]"
  by (simp add: full_window_def window_entries_def)

text \<open>
  Entries 2, 1 and a limit of two: refused at second 3, admitted at second 12, where the
  entry of second 1 has left the window and is dropped.
\<close>

theorem acquire_entry_admits_witness:
  "0 < (2::int) \<and> newest_first (window_entries full_window ''k'') \<and>
   MongoDBStorage_acquire_entry full_window (clock_at 3) ''k'' 2 10 = (False, full_window) \<and>
   fst (MongoDBStorage_acquire_entry full_window (clock_at 12) ''k'' 2 10) \<and>
   window_entries (snd (MongoDBStorage_acquire_entry full_window (clock_at 12) ''k'' 2 10)) ''k'' =
     [12, 2]"
proof -
  have lim: "0 < (2::int)" by simp
  have nf: "newest_first (window_entries full_window ''k'')"
    by (simp add: full_window_entries newest_first_def)
  have t3: "length (trailing (clock_at 3) 10 (window_entries full_window ''k'')) = 2"
    by (simp add: full_window_entries trailing_def clock_at_def)
  have t12: "length (trailing (clock_at 12) 10 (window_entries full_window ''k'')) = 1"
    by (simp add: full_window_entries trailing_def clock_at_def)
  have rejected: "MongoDBStorage_acquire_entry full_window (clock_at 3) ''k'' 2 10 = (False, full_window)"
    using acquire_entry_admits [OF lim nf, of "clock_at 3" 10] t3
    by (simp add: prod_eq_iff)
  have admitted: "fst (MongoDBStorage_acquire_entry full_window (clock_at 12) ''k'' 2 10)"
    using acquire_entry_admits [OF lim nf, of "clock_at 12" 10] t12
    by simp
  have "snd (MongoDBStorage_acquire_entry full_window (clock_at 12) ''k'' 2 10) =
      full_window\<lparr>windows := (windows full_window)(''k'' \<mapsto>
         \<lparr>entries = take (nat 2) (time_time (clock_at 12) # window_entries full_window ''k''),
          expireAt_w = utcnow (clock_at 12) + real_of_int 10\<rparr>)\<rparr>"
    using acquire_entry_admits [OF lim nf, of "clock_at 12" 10] admitted by blast
  then have stored:
    "window_entries (snd (MongoDBStorage_acquire_entry full_window (clock_at 12) ''k'' 2 10)) ''k'' =
       [12, 2]"
    by (simp add: window_entries_upd full_window_entries clock_at_def)
  from lim nf rejected admitted stored show ?thesis by blast
qed

section \<open>The order of the stored entries\<close>

lemma acquire_entry_keeps_order:
  assumes "0 \<le> limit" and "newest_first (window_entries s key)"
    and "int (length (window_entries s key)) \<le> limit"
    and "\<forall>e \<in> set (window_entries s key). e \<le> time_time c"
  shows "newest_first (window_entries (snd (MongoDBStorage_acquire_entry s c key limit expiry)) key) \<and>
         int (length (window_entries (snd (MongoDBStorage_acquire_entry s c key limit expiry)) key))
           \<le> limit \<and>
         (\<forall>e \<in> set (window_entries (snd (MongoDBStorage_acquire_entry s c key limit expiry)) key).
            e \<le> time_time c)"
proof (cases "fst (MongoDBStorage_acquire_entry s c key limit expiry)")
  case False
  then have "snd (MongoDBStorage_acquire_entry s c key limit expiry) = s"
    by (simp add: acquire_entry_eq split: if_splits)
  with assms show ?thesis by simp
next
  case True
  let ?es = "take (nat limit) (time_time c # window_entries s key)"
  from True have "window_entries (snd (MongoDBStorage_acquire_entry s c key limit expiry)) key = ?es"
    using assms(1) by (simp add: acquire_entry_eq slice_nonneg window_entries_upd split: if_splits)
  moreover have "newest_first (time_time c # window_entries s key)"
    using assms(2,4) by (simp add: newest_first_Cons)
  then have "newest_first ?es" by (rule newest_first_take)
  moreover have "int (length ?es) \<le> limit" using assms(1) by simp
  moreover have "\<forall>e \<in> set ?es. e \<le> time_time c"
  proof
    fix e assume "e \<in> set ?es"
    then have "e \<in> set (time_time c # window_entries s key)" by (rule in_set_takeD)
    with assms(4) show "e \<le> time_time c" by auto
  qed
  ultimately show ?thesis by simp
qed

lemma acquire_entries_keep_order:
  "0 \<le> limit \<Longrightarrow> newest_first (window_entries s key) \<Longrightarrow>
   int (length (window_entries s key)) \<le> limit \<Longrightarrow>
   sorted (map time_time cs) \<Longrightarrow>
   \<forall>e \<in> set (window_entries s key). \<forall>c \<in> set cs. e \<le> time_time c \<Longrightarrow>
   newest_first (window_entries (snd (acquire_entries s cs key limit expiry)) key) \<and>
   int (length (window_entries (snd (acquire_entries s cs key limit expiry)) key)) \<le> limit"
proof (induction cs arbitrary: s)
  case Nil
  then show ?case by simp
next
  case (Cons c cs)
  let ?s1 = "snd (MongoDBStorage_acquire_entry s c key limit expiry)"
  have below: "\<forall>e \<in> set (window_entries s key). e \<le> time_time c"
    using Cons.prems(5) by simp
  from acquire_entry_keeps_order [OF Cons.prems(1,2,3) below, of expiry]
  have nf: "newest_first (window_entries ?s1 key)"
    and len: "int (length (window_entries ?s1 key)) \<le> limit"
    and le: "\<forall>e \<in> set (window_entries ?s1 key). e \<le> time_time c"
    by simp_all
  have later: "\<forall>c' \<in> set cs. time_time c \<le> time_time c'"
    using Cons.prems(4) by simp
  have "\<forall>e \<in> set (window_entries ?s1 key). \<forall>c' \<in> set cs. e \<le> time_time c'"
    using le later by force
  moreover have "sorted (map time_time cs)" using Cons.prems(4) by simp
  ultimately have "newest_first (window_entries (snd (acquire_entries ?s1 cs key limit expiry)) key) \<and>
     int (length (window_entries (snd (acquire_entries ?s1 cs key limit expiry)) key)) \<le> limit"
    using Cons.IH [of ?s1] Cons.prems(1) nf len by blast
  moreover have "snd (acquire_entries s (c # cs) key limit expiry) =
     snd (acquire_entries ?s1 cs key limit expiry)"
    by (simp add: split_beta)
  ultimately show ?case by simp
qed

text \<open>
  C9. Calls of \<^verbatim>\<open>acquire_entry\<close> with one limit (not below zero) and timestamps that
  never decrease keep the entries of the record newest first and at most \<open>limit\<close> long.
  The method decides admission from the single element at index \<open>limit - 1\<close>. While the
  entries are newest first that decision is, for a limit above zero, the same as fewer
  than \<open>limit\<close> entries lying inside the trailing window; on a record out of order
  (entries 50, 100) it is not.
\<close>

theorem window_order_invariant:
  "(0 \<le> limit \<and> newest_first (window_entries s key) \<and>
    int (length (window_entries s key)) \<le> limit \<and>
    sorted (map time_time cs) \<and>
    (\<forall>e \<in> set (window_entries s key). \<forall>c \<in> set cs. e \<le> time_time c) \<longrightarrow>
      newest_first (window_entries (snd (acquire_entries s cs key limit expiry)) key) \<and>
      int (length (window_entries (snd (acquire_entries s cs key limit expiry)) key)) \<le> limit) \<and>
   fst (MongoDBStorage_acquire_entry s c key limit expiry) =
     not_gte (entry_at (window_entries s key) (limit - 1)) (time_time c - real_of_int expiry) \<and>
   (0 < limit \<and> newest_first (window_entries s key) \<longrightarrow>
      fst (MongoDBStorage_acquire_entry s c key limit expiry) =
        (int (length (trailing c expiry (window_entries s key))) < limit)) \<and>
   \<not> newest_first (window_entries skewed_window ''k'') \<and>
   fst (MongoDBStorage_acquire_entry skewed_window (clock_at 105) ''k'' 2 10) \<noteq>
     (int (length (trailing (clock_at 105) 10 (window_entries skewed_window ''k''))) < 2)"
proof -
  have run: "0 \<le> limit \<and> newest_first (window_entries s key) \<and>
    int (length (window_entries s key)) \<le> limit \<and>
    sorted (map time_time cs) \<and>
    (\<forall>e \<in> set (window_entries s key). \<forall>c \<in> set cs. e \<le> time_time c) \<longrightarrow>
      newest_first (window_entries (snd (acquire_entries s cs key limit expiry)) key) \<and>
      int (length (window_entries (snd (acquire_entries s cs key limit expiry)) key)) \<le> limit"
    using acquire_entries_keep_order [of limit s key cs expiry] by blast
  have reads: "fst (MongoDBStorage_acquire_entry s c key limit expiry) =
     not_gte (entry_at (window_entries s key) (limit - 1)) (time_time c - real_of_int expiry)"
    by (simp add: acquire_entry_eq)
  have coincide: "0 < limit \<and> newest_first (window_entries s key) \<longrightarrow>
      fst (MongoDBStorage_acquire_entry s c key limit expiry) =
        (int (length (trailing c expiry (window_entries s key))) < limit)"
    using check_iff_count [of "window_entries s key" limit "time_time c - real_of_int expiry"]
    by (simp add: acquire_entry_eq trailing_def)
  have unordered: "\<not> newest_first (window_entries skewed_window ''k'')"
    by (simp add: skewed_entries newest_first_def)
  have differ: "fst (MongoDBStorage_acquire_entry skewed_window (clock_at 105) ''k'' 2 10) \<noteq>
     (int (length (trailing (clock_at 105) 10 (window_entries skewed_window ''k''))) < 2)"
    by (simp add: acquire_entry_eq skewed_entries trailing_def clock_at_def not_gte_def entry_at_def)
  from run reads coincide unordered differ show ?thesis by blast
qed

text \<open>Three calls at seconds 1, 2, 3 on an empty store, and the record with entries 2, 1.\<close>

theorem window_order_invariant_witness:
  "0 < (2::int) \<and> newest_first (window_entries empty_mongo ''k'') \<and>
   sorted (map time_time [clock_at 1, clock_at 2, clock_at 3]) \<and>
   newest_first (window_entries (snd (acquire_entries empty_mongo
       [clock_at 1, clock_at 2, clock_at 3] ''k'' 2 10)) ''k'') \<and>
   int (length (window_entries (snd (acquire_entries empty_mongo
       [clock_at 1, clock_at 2, clock_at 3] ''k'' 2 10)) ''k'')) \<le> 2 \<and>
   newest_first (window_entries full_window ''k'') \<and>
   fst (MongoDBStorage_acquire_entry full_window (clock_at 3) ''k'' 2 10) =
     (int (length (trailing (clock_at 3) 10 (window_entries full_window ''k''))) < 2)"
proof -
  have start: "window_entries empty_mongo ''k'' = []"
    by (simp add: empty_mongo_def window_entries_def)
  have clocks: "sorted (map time_time [clock_at 1, clock_at 2, clock_at 3])"
    by (simp add: clock_at_def)
  have full: "newest_first (window_entries full_window ''k'')"
    by (simp add: full_window_def window_entries_def newest_first_def)
  from start have pre: "0 \<le> (2::int) \<and> 0 < (2::int) \<and>
    newest_first (window_entries empty_mongo ''k'') \<and>
    int (length (window_entries empty_mongo ''k'')) \<le> 2 \<and>
    sorted (map time_time [clock_at 1, clock_at 2, clock_at 3]) \<and>
    (\<forall>e \<in> set (window_entries empty_mongo ''k'').
       \<forall>c \<in> set [clock_at 1, clock_at 2, clock_at 3]. e \<le> time_time c)"
    using clocks by (simp add: newest_first_def)
  show ?thesis
    using window_order_invariant [of 2 empty_mongo "''k''" "[clock_at 1, clock_at 2, clock_at 3]" 10]
      window_order_invariant [of 2 full_window "''k''" "[]" 10 "clock_at 3"] pre full
    by blast
qed

section \<open>FixedWindowRateLimiter.hit\<close>

lemma FixedWindowRateLimiter_hit_eq:
  "FixedWindowRateLimiter_hit s c item identifiers =
     (fst (MongoDBStorage_incr s c (key_for item identifiers) (get_expiry item) False) \<le> amount item,
      snd (MongoDBStorage_incr s c (key_for item identifiers) (get_expiry item) False))"
  by (simp add: FixedWindowRateLimiter_hit_def split_beta)

lemma hits_Suc:
  "FixedWindowRateLimiter_hits (Suc n) s c item identifiers =
     (fst (FixedWindowRateLimiter_hit s c item identifiers) #
        fst (FixedWindowRateLimiter_hits n (snd (FixedWindowRateLimiter_hit s c item identifiers))
               c item identifiers),
      snd (FixedWindowRateLimiter_hits n (snd (FixedWindowRateLimiter_hit s c item identifiers))
               c item identifiers))"
  by (simp add: split_beta)

text \<open>
  While the record is alive a plain hit leaves its \<^verbatim>\<open>expireAt\<close> alone, so the hits of a
  row count on from the stored count.
\<close>

lemma hits_live:
  "counters s (key_for item identifiers) = Some \<lparr>count = k, expireAt = x\<rparr> \<Longrightarrow> \<not> x < NOW c \<Longrightarrow>
   fst (FixedWindowRateLimiter_hits n s c item identifiers) =
     map (\<lambda>i. k + 1 + int i \<le> amount item) [0..<n]"
proof (induction n arbitrary: s k)
  case 0
  then show ?case by simp
next
  case (Suc n)
  let ?s1 = "snd (FixedWindowRateLimiter_hit s c item identifiers)"
  have first: "fst (FixedWindowRateLimiter_hit s c item identifiers) = (k + 1 \<le> amount item)"
    using Suc.prems by (simp add: FixedWindowRateLimiter_hit_eq MongoDBStorage_incr_def)
  have "counters ?s1 (key_for item identifiers) = Some \<lparr>count = k + 1, expireAt = x\<rparr>"
    using Suc.prems by (simp add: FixedWindowRateLimiter_hit_eq MongoDBStorage_incr_def)
  from Suc.IH [OF this Suc.prems(2)]
  have rest: "fst (FixedWindowRateLimiter_hits n ?s1 c item identifiers) =
      map (\<lambda>i. k + 1 + 1 + int i \<le> amount item) [0..<n]" .
  have "map (\<lambda>i. k + 1 + int i \<le> amount item) [0..<Suc n] =
      (k + 1 \<le> amount item) # map (\<lambda>i. k + 1 + 1 + int i \<le> amount item) [0..<n]"
    by (simp add: upt_conv_Cons map_Suc_upt [symmetric] del: upt_Suc) (simp add: add.commute add.left_commute)
  with first rest show ?case by (simp only: hits_Suc fst_conv)
qed

lemma hits_fresh:
  assumes "counters s (key_for item identifiers) = None"
    and "\<not> utcnow c + real_of_int (get_expiry item) < NOW c"
  shows "fst (FixedWindowRateLimiter_hits (Suc n) s c item identifiers) =
     map (\<lambda>i. 1 + int i \<le> amount item) [0..<Suc n]"
proof -
  let ?s1 = "snd (FixedWindowRateLimiter_hit s c item identifiers)"
  have first: "fst (FixedWindowRateLimiter_hit s c item identifiers) = (1 \<le> amount item)"
    using assms(1) by (simp add: FixedWindowRateLimiter_hit_eq MongoDBStorage_incr_def)
  have "counters ?s1 (key_for item identifiers) =
      Some \<lparr>count = 1, expireAt = utcnow c + real_of_int (get_expiry item)\<rparr>"
    using assms(1) by (simp add: FixedWindowRateLimiter_hit_eq MongoDBStorage_incr_def)
  from hits_live [OF this assms(2)]
  have rest: "fst (FixedWindowRateLimiter_hits n ?s1 c item identifiers) =
      map (\<lambda>i. 1 + 1 + int i \<le> amount item) [0..<n]" .
  have "map (\<lambda>i. 1 + int i \<le> amount item) [0..<Suc n] =
      (1 \<le> amount item) # map (\<lambda>i. 1 + 1 + int i \<le> amount item) [0..<n]"
    by (simp add: upt_conv_Cons map_Suc_upt [symmetric] del: upt_Suc)
  with first rest show ?thesis by (simp only: hits_Suc fst_conv)
qed

lemma admitted_then_refused:
  assumes "0 \<le> a"
  shows "map (\<lambda>i. 1 + int i \<le> a) [0..<Suc (nat a)] = replicate (nat a) True @ [False]"
proof -
  have "map (\<lambda>i. 1 + int i \<le> a) [0..<nat a] = replicate (nat a) True"
    by (rule nth_equalityI) (use assms in auto)
  then show ?thesis using assms by simp
qed

text \<open>
  When the server's \<^verbatim>\<open>$$NOW\<close> is ahead of the client's \<^verbatim>\<open>utcnow()\<close> by more than the
  expiry, the \<^verbatim>\<open>expireAt\<close> that a hit writes is already in the server's past: the next
  hit starts over at one, and every hit of an item with an amount above zero is admitted.
\<close>

lemma hits_server_ahead:
  "utcnow c + real_of_int (get_expiry item) < NOW c \<Longrightarrow> 0 < amount item \<Longrightarrow>
   counters s (key_for item identifiers) = None \<or>
     (\<exists>d. counters s (key_for item identifiers) = Some d \<and> expireAt d < NOW c) \<Longrightarrow>
   fst (FixedWindowRateLimiter_hits n s c item identifiers) = replicate n True"
proof (induction n arbitrary: s)
  case 0
  then show ?case by simp
next
  case (Suc n)
  let ?s1 = "snd (FixedWindowRateLimiter_hit s c item identifiers)"
  have first: "fst (FixedWindowRateLimiter_hit s c item identifiers)"
    using Suc.prems(2,3) by (auto simp: FixedWindowRateLimiter_hit_eq MongoDBStorage_incr_def)
  have "counters ?s1 (key_for item identifiers) =
      Some \<lparr>count = 1, expireAt = utcnow c + real_of_int (get_expiry item)\<rparr>"
    using Suc.prems(3) by (auto simp: FixedWindowRateLimiter_hit_eq MongoDBStorage_incr_def)
  with Suc.prems(1)
  have "counters ?s1 (key_for item identifiers) = None \<or>
     (\<exists>d. counters ?s1 (key_for item identifiers) = Some d \<and> expireAt d < NOW c)"
    by simp
  from Suc.IH [OF Suc.prems(1,2) this]
  have rest: "fst (FixedWindowRateLimiter_hits n ?s1 c item identifiers) = replicate n True" .
  from first rest show ?case by (simp only: hits_Suc fst_conv replicate_Suc)
qed

text \<open>
  C5, with the clocks made explicit. With an amount and an expiry above zero, no record
  for the key of the item, no time passing (every hit sees the same readings) and the
  server's \<^verbatim>\<open>$$NOW\<close> not ahead of the client's \<^verbatim>\<open>utcnow()\<close> by more than the expiry, the
  first \<open>amount\<close> hits of \<^verbatim>\<open>FixedWindowRateLimiter\<close> return true and the next one returns
  false. A hit is admitted exactly when the count that \<^verbatim>\<open>incr\<close> returns without elastic
  expiry is at most the amount.
\<close>

theorem FixedWindowRateLimiter_admits_amount:
  assumes "0 < amount item" and "0 < get_expiry item"
    and "counters s (key_for item identifiers) = None"
    and "NOW c \<le> utcnow c + real_of_int (get_expiry item)"
  shows "fst (FixedWindowRateLimiter_hits (nat (amount item) + 1) s c item identifiers) =
           replicate (nat (amount item)) True @ [False] \<and>
         (\<forall>s' c'. fst (FixedWindowRateLimiter_hit s' c' item identifiers) =
            (fst (MongoDBStorage_incr s' c' (key_for item identifiers) (get_expiry item) False)
               \<le> amount item))"
proof -
  have "\<not> utcnow c + real_of_int (get_expiry item) < NOW c"
    using assms(4) by simp
  from hits_fresh [OF assms(3) this, of "nat (amount item)"]
  have "fst (FixedWindowRateLimiter_hits (nat (amount item) + 1) s c item identifiers) =
      map (\<lambda>i. 1 + int i \<le> amount item) [0..<Suc (nat (amount item))]" by simp
  also have "\<dots> = replicate (nat (amount item)) True @ [False]"
    using assms(1) by (intro admitted_then_refused) simp
  finally show ?thesis by (simp add: FixedWindowRateLimiter_hit_eq)
qed

text \<open>Two per two seconds on an empty store: true, true, false.\<close>

theorem FixedWindowRateLimiter_admits_amount_witness:
  "0 < amount two_per_two_seconds \<and> 0 < get_expiry two_per_two_seconds \<and>
   counters empty_mongo (key_for two_per_two_seconds [''user'']) = None \<and>
   NOW (clock_at 5) \<le> utcnow (clock_at 5) + real_of_int (get_expiry two_per_two_seconds) \<and>
   fst (FixedWindowRateLimiter_hits 3 empty_mongo (clock_at 5) two_per_two_seconds [''user'']) =
     [True, True, False]"
proof -
  have a: "0 < amount two_per_two_seconds" and e: "0 < get_expiry two_per_two_seconds"
    by (simp_all add: two_per_two_seconds_def)
  have n: "counters empty_mongo (key_for two_per_two_seconds [''user'']) = None"
    by (simp add: empty_mongo_def)
  have k: "NOW (clock_at 5) \<le> utcnow (clock_at 5) + real_of_int (get_expiry two_per_two_seconds)"
    by (simp add: clock_at_def two_per_two_seconds_def)
  have three: "nat (amount two_per_two_seconds) + 1 = 3"
    by (simp add: two_per_two_seconds_def)
  have two: "replicate (nat (amount two_per_two_seconds)) True @ [False] = [True, True, False]"
    by (simp add: two_per_two_seconds_def numeral_2_eq_2)
  from FixedWindowRateLimiter_admits_amount [OF a e n k]
  have "fst (FixedWindowRateLimiter_hits (nat (amount two_per_two_seconds) + 1) empty_mongo
              (clock_at 5) two_per_two_seconds [''user'']) =
          replicate (nat (amount two_per_two_seconds)) True @ [False]"
    by (rule conjunct1)
  then have "fst (FixedWindowRateLimiter_hits 3 empty_mongo (clock_at 5) two_per_two_seconds
                   [''user'']) = [True, True, False]"
    unfolding three two .
  with a e n k show ?thesis by blast
qed

text \<open>
  Two per two seconds on an empty store, the server's clock a hundred seconds ahead of
  the client's and no time passing: the third hit is admitted as well.
\<close>

theorem FixedWindowRateLimiter_admits_beyond_amount:
  "0 < amount two_per_two_seconds \<and> 0 < get_expiry two_per_two_seconds \<and>
   counters empty_mongo (key_for two_per_two_seconds [''user'']) = None \<and>
   fst (FixedWindowRateLimiter_hits 3 empty_mongo server_ahead two_per_two_seconds [''user'']) =
     [True, True, True]"
proof -
  have a: "0 < amount two_per_two_seconds" and e: "0 < get_expiry two_per_two_seconds"
    by (simp_all add: two_per_two_seconds_def)
  have n: "counters empty_mongo (key_for two_per_two_seconds [''user'']) = None"
    by (simp add: empty_mongo_def)
  have ahead: "utcnow server_ahead + real_of_int (get_expiry two_per_two_seconds) < NOW server_ahead"
    by (simp add: server_ahead_def two_per_two_seconds_def)
  from n have "counters empty_mongo (key_for two_per_two_seconds [''user'']) = None \<or>
     (\<exists>d. counters empty_mongo (key_for two_per_two_seconds [''user'']) = Some d \<and>
          expireAt d < NOW server_ahead)" by blast
  from hits_server_ahead [OF ahead a this, of 3]
  have "fst (FixedWindowRateLimiter_hits 3 empty_mongo server_ahead two_per_two_seconds
               [''user'']) = [True, True, True]"
    by (simp add: numeral_3_eq_3)
  with a e n show ?thesis by blast
qed

section \<open>FixedWindowElasticExpiryRateLimiter.hit\<close>

lemma FixedWindowElasticExpiryRateLimiter_hit_eq:
  "FixedWindowElasticExpiryRateLimiter_hit s c item identifiers =
     (fst (MongoDBStorage_incr s c (key_for item identifiers) (get_expiry item) True) \<le> amount item,
      snd (MongoDBStorage_incr s c (key_for item identifiers) (get_expiry item) True))"
  by (simp add: FixedWindowElasticExpiryRateLimiter_hit_def split_beta)

lemma elastic_hit_expireAt:
  "\<exists>n. counters (snd (FixedWindowElasticExpiryRateLimiter_hit s c item identifiers))
          (key_for item identifiers) =
        Some \<lparr>count = n, expireAt = utcnow c + real_of_int (get_expiry item)\<rparr>"
  by (simp add: FixedWindowElasticExpiryRateLimiter_hit_eq MongoDBStorage_incr_def Let_def
      split: option.split)

lemma get_window_stats_reset:
  "counters s (key_for item identifiers) = Some d \<Longrightarrow>
   fst (fst (FixedWindowRateLimiter_get_window_stats s r item identifiers)) = \<lfloor>expireAt d\<rfloor>"
  by (simp add: FixedWindowRateLimiter_get_window_stats_def MongoDBStorage_get_def
      MongoDBStorage_get_expiry_def timegm_def split_beta Let_def)

lemma reset_after_elastic_hit:
  "fst (fst (FixedWindowRateLimiter_get_window_stats
       (snd (FixedWindowElasticExpiryRateLimiter_hit s c item identifiers)) r item identifiers)) =
     \<lfloor>utcnow c + real_of_int (get_expiry item)\<rfloor>"
proof -
  from elastic_hit_expireAt [of s c item identifiers]
  obtain n where "counters (snd (FixedWindowElasticExpiryRateLimiter_hit s c item identifiers))
      (key_for item identifiers) =
        Some \<lparr>count = n, expireAt = utcnow c + real_of_int (get_expiry item)\<rparr>" ..
  from get_window_stats_reset [OF this] show ?thesis by simp
qed

text \<open>
  C6, with the reset in whole seconds. On an existing unexpired record every hit of
  \<^verbatim>\<open>FixedWindowElasticExpiryRateLimiter\<close>, admitted or not, adds one to the count and sets
  \<^verbatim>\<open>expireAt\<close> to the time of the call plus the expiry. The reset that
  \<^verbatim>\<open>get_window_stats\<close> reports afterwards is that time cut to whole seconds. From one hit
  to a later one it never decreases, and it grows by exactly the time between the two
  hits when that time is a whole number of seconds. The hit is the plain fixed-window hit
  with \<^verbatim>\<open>elastic_expiry\<close> true in place of false.
\<close>

theorem elastic_hit_moves_reset:
  "(\<forall>d. counters s (key_for item identifiers) = Some d \<and> \<not> expireAt d < NOW c \<longrightarrow>
      counters (snd (FixedWindowElasticExpiryRateLimiter_hit s c item identifiers))
        (key_for item identifiers) =
          Some \<lparr>count = count d + 1, expireAt = utcnow c + real_of_int (get_expiry item)\<rparr>) \<and>
   fst (fst (FixedWindowRateLimiter_get_window_stats
       (snd (FixedWindowElasticExpiryRateLimiter_hit s c item identifiers)) r item identifiers)) =
     \<lfloor>utcnow c + real_of_int (get_expiry item)\<rfloor> \<and>
   (utcnow c \<le> utcnow c' \<longrightarrow>
      fst (fst (FixedWindowRateLimiter_get_window_stats
         (snd (FixedWindowElasticExpiryRateLimiter_hit s c item identifiers)) r item identifiers))
      \<le> fst (fst (FixedWindowRateLimiter_get_window_stats
         (snd (FixedWindowElasticExpiryRateLimiter_hit
            (snd (FixedWindowElasticExpiryRateLimiter_hit s c item identifiers))
            c' item identifiers)) r' item identifiers))) \<and>
   (utcnow c' - utcnow c = real_of_int k \<longrightarrow>
      fst (fst (FixedWindowRateLimiter_get_window_stats
         (snd (FixedWindowElasticExpiryRateLimiter_hit
            (snd (FixedWindowElasticExpiryRateLimiter_hit s c item identifiers))
            c' item identifiers)) r' item identifiers)) =
      fst (fst (FixedWindowRateLimiter_get_window_stats
         (snd (FixedWindowElasticExpiryRateLimiter_hit s c item identifiers)) r item identifiers))
      + k) \<and>
   FixedWindowElasticExpiryRateLimiter_hit s c item identifiers =
     (let (n, s') = MongoDBStorage_incr s c (key_for item identifiers) (get_expiry item) True
      in (n \<le> amount item, s')) \<and>
   FixedWindowRateLimiter_hit s c item identifiers =
     (let (n, s') = MongoDBStorage_incr s c (key_for item identifiers) (get_expiry item) False
      in (n \<le> amount item, s'))"
proof -
  have stored: "\<forall>d. counters s (key_for item identifiers) = Some d \<and> \<not> expireAt d < NOW c \<longrightarrow>
      counters (snd (FixedWindowElasticExpiryRateLimiter_hit s c item identifiers))
        (key_for item identifiers) =
          Some \<lparr>count = count d + 1, expireAt = utcnow c + real_of_int (get_expiry item)\<rparr>"
    by (simp add: FixedWindowElasticExpiryRateLimiter_hit_eq MongoDBStorage_incr_def Let_def)
  have mono: "utcnow c \<le> utcnow c' \<longrightarrow>
      \<lfloor>utcnow c + real_of_int (get_expiry item)\<rfloor> \<le> \<lfloor>utcnow c' + real_of_int (get_expiry item)\<rfloor>"
    by (simp add: floor_mono)
  have whole: "utcnow c' - utcnow c = real_of_int k \<longrightarrow>
      \<lfloor>utcnow c' + real_of_int (get_expiry item)\<rfloor> = \<lfloor>utcnow c + real_of_int (get_expiry item)\<rfloor> + k"
  proof
    assume "utcnow c' - utcnow c = real_of_int k"
    then have "utcnow c' + real_of_int (get_expiry item) =
        (utcnow c + real_of_int (get_expiry item)) + real_of_int k" by simp
    then show "\<lfloor>utcnow c' + real_of_int (get_expiry item)\<rfloor> =
        \<lfloor>utcnow c + real_of_int (get_expiry item)\<rfloor> + k"
      by (simp only: floor_add_int)
  qed
  have elastic: "FixedWindowElasticExpiryRateLimiter_hit s c item identifiers =
     (let (n, s') = MongoDBStorage_incr s c (key_for item identifiers) (get_expiry item) True
      in (n \<le> amount item, s'))"
    by (simp add: FixedWindowElasticExpiryRateLimiter_hit_def)
  have plain: "FixedWindowRateLimiter_hit s c item identifiers =
     (let (n, s') = MongoDBStorage_incr s c (key_for item identifiers) (get_expiry item) False
      in (n \<le> amount item, s'))"
    by (simp add: FixedWindowRateLimiter_hit_def)
  show ?thesis
    unfolding reset_after_elastic_hit
    using stored mono whole elastic plain by blast
qed

text \<open>
  Two hits half a second apart, at seconds 8 and 8.5, on a record alive until second 9,
  with an expiry of two seconds: the reset reported is 10 after the first and still 10
  after the second.
\<close>

theorem elastic_hit_reset_unmoved:
  "fst (fst (FixedWindowRateLimiter_get_window_stats
       (snd (FixedWindowElasticExpiryRateLimiter_hit exhausted_counter (clock_at 8)
          two_per_two_seconds [])) (clock_at 8) two_per_two_seconds [])) = 10 \<and>
   fst (fst (FixedWindowRateLimiter_get_window_stats
       (snd (FixedWindowElasticExpiryRateLimiter_hit
          (snd (FixedWindowElasticExpiryRateLimiter_hit exhausted_counter (clock_at 8)
             two_per_two_seconds []))
          (clock_at (17 / 2)) two_per_two_seconds [])) (clock_at (17 / 2)) two_per_two_seconds []))
     = 10"
  by (simp add: reset_after_elastic_hit clock_at_def two_per_two_seconds_def)


text \<open>The same record hit at second 8 and again one second later: resets 10 and 11.\<close>

theorem elastic_hit_moves_reset_witness:
  "counters exhausted_counter (key_for two_per_two_seconds []) = Some \<lparr>count = 2, expireAt = 9\<rparr> \<and>
   \<not> expireAt \<lparr>count = 2, expireAt = 9\<rparr> < NOW (clock_at 8) \<and>
   utcnow (clock_at 8) \<le> utcnow (clock_at 9) \<and>
   utcnow (clock_at 9) - utcnow (clock_at 8) = real_of_int 1 \<and>
   counters (snd (FixedWindowElasticExpiryRateLimiter_hit exhausted_counter (clock_at 8)
      two_per_two_seconds [])) (key_for two_per_two_seconds []) =
     Some \<lparr>count = 3, expireAt = 10\<rparr> \<and>
   fst (fst (FixedWindowRateLimiter_get_window_stats
       (snd (FixedWindowElasticExpiryRateLimiter_hit exhausted_counter (clock_at 8)
          two_per_two_seconds [])) (clock_at 8) two_per_two_seconds [])) = 10 \<and>
   fst (fst (FixedWindowRateLimiter_get_window_stats
       (snd (FixedWindowElasticExpiryRateLimiter_hit
          (snd (FixedWindowElasticExpiryRateLimiter_hit exhausted_counter (clock_at 8)
             two_per_two_seconds []))
          (clock_at 9) two_per_two_seconds [])) (clock_at 9) two_per_two_seconds [])) = 11"
proof -
  note th = elastic_hit_moves_reset [where s = exhausted_counter and item = two_per_two_seconds
      and identifiers = "[]" and c = "clock_at 8" and r = "clock_at 8" and c' = "clock_at 9"
      and r' = "clock_at 9" and k = 1]
  have rec: "counters exhausted_counter (key_for two_per_two_seconds []) =
      Some \<lparr>count = 2, expireAt = 9\<rparr>"
    by (simp add: exhausted_counter_def)
  have live: "\<not> expireAt \<lparr>count = 2, expireAt = 9\<rparr> < NOW (clock_at 8)"
    by (simp add: clock_at_def)
  have order: "utcnow (clock_at 8) \<le> utcnow (clock_at 9)"
    by (simp add: clock_at_def)
  have gap: "utcnow (clock_at 9) - utcnow (clock_at 8) = real_of_int 1"
    by (simp add: clock_at_def)
  have ten: "utcnow (clock_at 8) + real_of_int (get_expiry two_per_two_seconds) = 10"
    by (simp add: clock_at_def two_per_two_seconds_def)
  from th rec live
  have "counters (snd (FixedWindowElasticExpiryRateLimiter_hit exhausted_counter (clock_at 8)
      two_per_two_seconds [])) (key_for two_per_two_seconds []) =
     Some \<lparr>count = count \<lparr>count = 2, expireAt = 9\<rparr> + 1,
           expireAt = utcnow (clock_at 8) + real_of_int (get_expiry two_per_two_seconds)\<rparr>"
    by blast
  then have stored: "counters (snd (FixedWindowElasticExpiryRateLimiter_hit exhausted_counter
      (clock_at 8) two_per_two_seconds [])) (key_for two_per_two_seconds []) =
     Some \<lparr>count = 3, expireAt = 10\<rparr>"
    by (simp add: ten)
  from th have "fst (fst (FixedWindowRateLimiter_get_window_stats
       (snd (FixedWindowElasticExpiryRateLimiter_hit exhausted_counter (clock_at 8)
          two_per_two_seconds [])) (clock_at 8) two_per_two_seconds [])) =
       \<lfloor>utcnow (clock_at 8) + real_of_int (get_expiry two_per_two_seconds)\<rfloor>"
    by blast
  then have first: "fst (fst (FixedWindowRateLimiter_get_window_stats
       (snd (FixedWindowElasticExpiryRateLimiter_hit exhausted_counter (clock_at 8)
          two_per_two_seconds [])) (clock_at 8) two_per_two_seconds [])) = 10"
    by (simp add: ten)
  from th gap have "fst (fst (FixedWindowRateLimiter_get_window_stats
       (snd (FixedWindowElasticExpiryRateLimiter_hit
          (snd (FixedWindowElasticExpiryRateLimiter_hit exhausted_counter (clock_at 8)
             two_per_two_seconds []))
          (clock_at 9) two_per_two_seconds [])) (clock_at 9) two_per_two_seconds [])) =
      fst (fst (FixedWindowRateLimiter_get_window_stats
       (snd (FixedWindowElasticExpiryRateLimiter_hit exhausted_counter (clock_at 8)
          two_per_two_seconds [])) (clock_at 8) two_per_two_seconds [])) + 1"
    by blast
  with first have second: "fst (fst (FixedWindowRateLimiter_get_window_stats
       (snd (FixedWindowElasticExpiryRateLimiter_hit
          (snd (FixedWindowElasticExpiryRateLimiter_hit exhausted_counter (clock_at 8)
             two_per_two_seconds []))
          (clock_at 9) two_per_two_seconds [])) (clock_at 9) two_per_two_seconds [])) = 11"
    by simp
  from rec live order gap stored first second show ?thesis by blast
qed

section \<open>test and get_window_stats\<close>

lemma reads_keep_state:
  "snd (MongoDBStorage_get s c key) = s"
  "snd (MongoDBStorage_get_expiry s c key) = s"
  "snd (MongoDBStorage_get_moving_window s c key limit expiry) = s"
  by (simp_all add: MongoDBStorage_get_def MongoDBStorage_get_expiry_def
      MongoDBStorage_get_moving_window_def Let_def split: option.split list.split)

lemma test_and_stats_keep_state:
  "snd (FixedWindowRateLimiter_test s c item identifiers) = s"
  "snd (FixedWindowRateLimiter_get_window_stats s c item identifiers) = s"
  "snd (MovingWindowRateLimiter_test s c item identifiers) = s"
  "snd (MovingWindowRateLimiter_get_window_stats s c item identifiers) = s"
  by (simp_all add: FixedWindowRateLimiter_test_def FixedWindowRateLimiter_get_window_stats_def
      MovingWindowRateLimiter_test_def MovingWindowRateLimiter_get_window_stats_def
      split_beta Let_def reads_keep_state)

text \<open>
  C7. \<^verbatim>\<open>test\<close> and \<^verbatim>\<open>get_window_stats\<close>, of the fixed window and of the moving window,
  return the state they were given. So with no hit in between and the same clock
  readings, a second \<^verbatim>\<open>test\<close> returns what the first returned, and \<^verbatim>\<open>get_window_stats\<close>
  reports the same before and after either of the two.
\<close>

theorem test_and_stats_read_only:
  "snd (FixedWindowRateLimiter_test s c item identifiers) = s \<and>
   snd (FixedWindowRateLimiter_get_window_stats s c item identifiers) = s \<and>
   snd (MovingWindowRateLimiter_test s c item identifiers) = s \<and>
   snd (MovingWindowRateLimiter_get_window_stats s c item identifiers) = s \<and>
   fst (FixedWindowRateLimiter_test
          (snd (FixedWindowRateLimiter_test s c item identifiers)) c item identifiers) =
     fst (FixedWindowRateLimiter_test s c item identifiers) \<and>
   fst (FixedWindowRateLimiter_get_window_stats
          (snd (FixedWindowRateLimiter_test s c item identifiers)) c item identifiers) =
     fst (FixedWindowRateLimiter_get_window_stats s c item identifiers) \<and>
   fst (FixedWindowRateLimiter_get_window_stats
          (snd (FixedWindowRateLimiter_get_window_stats s c item identifiers)) c item identifiers) =
     fst (FixedWindowRateLimiter_get_window_stats s c item identifiers) \<and>
   fst (FixedWindowRateLimiter_test
          (snd (FixedWindowRateLimiter_get_window_stats s c item identifiers)) c item identifiers) =
     fst (FixedWindowRateLimiter_test s c item identifiers) \<and>
   fst (MovingWindowRateLimiter_test
          (snd (MovingWindowRateLimiter_test s c item identifiers)) c item identifiers) =
     fst (MovingWindowRateLimiter_test s c item identifiers) \<and>
   fst (MovingWindowRateLimiter_get_window_stats
          (snd (MovingWindowRateLimiter_test s c item identifiers)) c item identifiers) =
     fst (MovingWindowRateLimiter_get_window_stats s c item identifiers) \<and>
   fst (MovingWindowRateLimiter_get_window_stats
          (snd (MovingWindowRateLimiter_get_window_stats s c item identifiers)) c item identifiers) =
     fst (MovingWindowRateLimiter_get_window_stats s c item identifiers) \<and>
   fst (MovingWindowRateLimiter_test
          (snd (MovingWindowRateLimiter_get_window_stats s c item identifiers)) c item identifiers) =
     fst (MovingWindowRateLimiter_test s c item identifiers)"
  by (simp only: test_and_stats_keep_state simp_thms)

text \<open>The used-up counter read twice at second 8.\<close>

theorem test_and_stats_read_only_witness:
  "snd (FixedWindowRateLimiter_test exhausted_counter (clock_at 8) two_per_two_seconds []) =
     exhausted_counter \<and>
   fst (FixedWindowRateLimiter_test
          (snd (FixedWindowRateLimiter_test exhausted_counter (clock_at 8) two_per_two_seconds []))
          (clock_at 8) two_per_two_seconds []) =
     fst (FixedWindowRateLimiter_test exhausted_counter (clock_at 8) two_per_two_seconds [])"
  using test_and_stats_read_only [of exhausted_counter "clock_at 8" two_per_two_seconds "[]"]
  by blast

section \<open>RateLimiter.clear\<close>

lemma clear_absent:
  "counters s key = None \<Longrightarrow> windows s key = None \<Longrightarrow> MongoDBStorage_clear s key = s"
  by (simp add: MongoDBStorage_clear_def fun_upd_idem)

lemma cleared:
  "counters (MongoDBStorage_clear s key) key = None"
  "windows (MongoDBStorage_clear s key) key = None"
  by (simp_all add: MongoDBStorage_clear_def)

text \<open>
  C8. Clearing twice leaves the state that clearing once leaves, and clearing a key that
  has neither a counter nor a window changes nothing. Right after \<^verbatim>\<open>clear\<close> the remaining
  hits that \<^verbatim>\<open>get_window_stats\<close> reports are the amount of the item, for the fixed window
  (an amount is above zero) and for the moving window.
\<close>

theorem clear_idempotent:
  "RateLimiter_clear (RateLimiter_clear s item identifiers) item identifiers =
     RateLimiter_clear s item identifiers \<and>
   (counters s (key_for item identifiers) = None \<and> windows s (key_for item identifiers) = None \<longrightarrow>
      RateLimiter_clear s item identifiers = s) \<and>
   (0 < amount item \<longrightarrow>
      snd (fst (FixedWindowRateLimiter_get_window_stats
                  (RateLimiter_clear s item identifiers) c item identifiers)) = amount item) \<and>
   snd (fst (MovingWindowRateLimiter_get_window_stats
               (RateLimiter_clear s item identifiers) c item identifiers)) = amount item"
proof -
  have twice: "RateLimiter_clear (RateLimiter_clear s item identifiers) item identifiers =
     RateLimiter_clear s item identifiers"
    unfolding RateLimiter_clear_def by (rule clear_absent) (rule cleared)+
  have absent: "counters s (key_for item identifiers) = None \<and>
      windows s (key_for item identifiers) = None \<longrightarrow> RateLimiter_clear s item identifiers = s"
    unfolding RateLimiter_clear_def by (simp add: clear_absent)
  have fixed: "0 < amount item \<longrightarrow>
      snd (fst (FixedWindowRateLimiter_get_window_stats
                  (RateLimiter_clear s item identifiers) c item identifiers)) = amount item"
    by (simp add: FixedWindowRateLimiter_get_window_stats_def RateLimiter_clear_def
        MongoDBStorage_get_def MongoDBStorage_get_expiry_def cleared split_beta Let_def)
  have moving: "snd (fst (MovingWindowRateLimiter_get_window_stats
               (RateLimiter_clear s item identifiers) c item identifiers)) = amount item"
    by (simp add: MovingWindowRateLimiter_get_window_stats_def RateLimiter_clear_def
        MongoDBStorage_get_moving_window_def cleared split_beta Let_def)
  from twice absent fixed moving show ?thesis by blast
qed

text \<open>Clearing the empty store, and clearing the used-up counter twice.\<close>

theorem clear_idempotent_witness:
  "counters empty_mongo (key_for two_per_two_seconds []) = None \<and>
   windows empty_mongo (key_for two_per_two_seconds []) = None \<and>
   0 < amount two_per_two_seconds \<and>
   RateLimiter_clear empty_mongo two_per_two_seconds [] = empty_mongo \<and>
   RateLimiter_clear (RateLimiter_clear exhausted_counter two_per_two_seconds [])
     two_per_two_seconds [] = RateLimiter_clear exhausted_counter two_per_two_seconds [] \<and>
   snd (fst (FixedWindowRateLimiter_get_window_stats
               (RateLimiter_clear exhausted_counter two_per_two_seconds [])
               (clock_at 8) two_per_two_seconds [])) = 2"
proof -
  have none: "counters empty_mongo (key_for two_per_two_seconds []) = None"
      "windows empty_mongo (key_for two_per_two_seconds []) = None"
    by (simp_all add: empty_mongo_def)
  have pos: "0 < amount two_per_two_seconds" and two: "amount two_per_two_seconds = 2"
    by (simp_all add: two_per_two_seconds_def)
  from clear_idempotent [of empty_mongo two_per_two_seconds "[]" "clock_at 8"] none
  have noop: "RateLimiter_clear empty_mongo two_per_two_seconds [] = empty_mongo" by blast
  from clear_idempotent [of exhausted_counter two_per_two_seconds "[]" "clock_at 8"]
  have twice: "RateLimiter_clear (RateLimiter_clear exhausted_counter two_per_two_seconds [])
     two_per_two_seconds [] = RateLimiter_clear exhausted_counter two_per_two_seconds []"
    by blast
  from clear_idempotent [of exhausted_counter two_per_two_seconds "[]" "clock_at 8"] pos
  have "snd (fst (FixedWindowRateLimiter_get_window_stats
               (RateLimiter_clear exhausted_counter two_per_two_seconds [])
               (clock_at 8) two_per_two_seconds [])) = amount two_per_two_seconds"
    by blast
  with two have full: "snd (fst (FixedWindowRateLimiter_get_window_stats
               (RateLimiter_clear exhausted_counter two_per_two_seconds [])
               (clock_at 8) two_per_two_seconds [])) = 2" by simp
  from none pos noop twice full show ?thesis by blast
qed

section \<open>An expired record that is still stored\<close>

text \<open>
  C10. For a counter record whose \<^verbatim>\<open>expireAt\<close> has passed and which is still stored,
  \<^verbatim>\<open>get\<close> returns 0 while \<^verbatim>\<open>get_expiry\<close> returns the whole seconds of the stored
  \<^verbatim>\<open>expireAt\<close>, a time before now. \<^verbatim>\<open>FixedWindowRateLimiter.get_window_stats\<close> then
  reports that past reset together with the full amount remaining.
\<close>

theorem expired_record_still_read:
  assumes "counters s (key_for item identifiers) = Some d"
    and "expireAt d < utcnow c"
    and "0 \<le> amount item"
  shows "fst (MongoDBStorage_get s c (key_for item identifiers)) = 0 \<and>
         fst (MongoDBStorage_get_expiry s c (key_for item identifiers)) = \<lfloor>expireAt d\<rfloor> \<and>
         real_of_int (fst (MongoDBStorage_get_expiry s c (key_for item identifiers))) < utcnow c \<and>
         fst (FixedWindowRateLimiter_get_window_stats s c item identifiers) =
           (\<lfloor>expireAt d\<rfloor>, amount item)"
proof -
  have get: "fst (MongoDBStorage_get s c (key_for item identifiers)) = 0"
    using assms(1,2) by (simp add: MongoDBStorage_get_def)
  have expiry: "fst (MongoDBStorage_get_expiry s c (key_for item identifiers)) = \<lfloor>expireAt d\<rfloor>"
    using assms(1) by (simp add: MongoDBStorage_get_expiry_def timegm_def)
  have "real_of_int \<lfloor>expireAt d\<rfloor> \<le> expireAt d" by simp
  with assms(2) have past: "real_of_int \<lfloor>expireAt d\<rfloor> < utcnow c" by linarith
  have stats: "fst (FixedWindowRateLimiter_get_window_stats s c item identifiers) =
      (\<lfloor>expireAt d\<rfloor>, amount item)"
    using assms by (simp add: FixedWindowRateLimiter_get_window_stats_def MongoDBStorage_get_def
        MongoDBStorage_get_expiry_def timegm_def split_beta Let_def)
  from get expiry past stats show ?thesis by simp
qed

text \<open>The counter that expired at second 9, read at second 12.\<close>

theorem expired_record_still_read_witness:
  "counters exhausted_counter (key_for two_per_two_seconds []) = Some \<lparr>count = 2, expireAt = 9\<rparr> \<and>
   expireAt \<lparr>count = 2, expireAt = 9\<rparr> < utcnow (clock_at 12) \<and>
   0 \<le> amount two_per_two_seconds \<and>
   fst (MongoDBStorage_get exhausted_counter (clock_at 12) (key_for two_per_two_seconds [])) = 0 \<and>
   fst (MongoDBStorage_get_expiry exhausted_counter (clock_at 12) (key_for two_per_two_seconds []))
     = 9 \<and>
   fst (FixedWindowRateLimiter_get_window_stats exhausted_counter (clock_at 12)
          two_per_two_seconds []) = (9, 2)"
proof -
  have rec: "counters exhausted_counter (key_for two_per_two_seconds []) =
      Some \<lparr>count = 2, expireAt = 9\<rparr>"
    by (simp add: exhausted_counter_def)
  have past: "expireAt \<lparr>count = 2, expireAt = 9\<rparr> < utcnow (clock_at 12)"
    by (simp add: clock_at_def)
  have pos: "0 \<le> amount two_per_two_seconds" and two: "amount two_per_two_seconds = 2"
    by (simp_all add: two_per_two_seconds_def)
  from expired_record_still_read [OF rec past pos] two
  have "fst (MongoDBStorage_get exhausted_counter (clock_at 12) (key_for two_per_two_seconds [])) = 0 \<and>
   fst (MongoDBStorage_get_expiry exhausted_counter (clock_at 12) (key_for two_per_two_seconds []))
     = 9 \<and>
   fst (FixedWindowRateLimiter_get_window_stats exhausted_counter (clock_at 12)
          two_per_two_seconds []) = (9, 2)"
    by simp
  with rec past pos show ?thesis by blast
qed

end
